theory Spec2Isabelle
  imports Complex_Main
begin

section \<open>Values of the host language\<close>

text \<open>
  A string is the list of its UTF-16 code units, written as natural numbers. The glyphs the
  quantity scaler prints lie outside Latin-1, so a list of 8-bit characters would not hold them.
  \<open>str\<close> turns an ASCII literal into such a list.
\<close>

type_synonym jstring = "nat list"

definition str :: "string \<Rightarrow> jstring" where
  "str s = map of_char s"

text \<open>
  A number is an exact rational, or one of the three non-finite values of the host language.
  Rounding to binary floating point and the sign of zero are not represented: every finite
  intermediate value is exact.
\<close>

datatype jsnum = Fin rat | PosInf | NegInf | NaN

text \<open>A thrown value: the kind of the exception and its \<open>message\<close>.\<close>

datatype errkind = GenericError | SyntaxError | TypeError | RangeError

datatype error = Error errkind jstring

fun message :: "error \<Rightarrow> jstring" where
  "message (Error k m) = m"

section \<open>Data model (types.ts)\<close>

record macros =
  calories :: jsnum
  protein :: jsnum
  carbs :: jsnum
  fats :: jsnum

record ingredient_rec =
  item :: jstring
  quantity :: jstring
  unit :: jstring

text \<open>\<open>Ingredient[] | string[]\<close>: an element is a plain string (older saved data) or a record.\<close>

datatype ingredient = Plain jstring | Structured ingredient_rec

text \<open>\<open>servings\<close> is absent in older saved data, hence optional.\<close>

record recipe =
  title :: jstring
  description :: jstring
  cookingTime :: jstring
  difficulty :: jstring
  servings :: "jsnum option"
  ingredients :: "ingredient list"
  instructions :: "jstring list"
  macros :: macros

record saved_recipe = recipe +
  id :: jstring
  savedAt :: nat
  imageUrl :: "jstring option"
  rating :: "jsnum option"

datatype DietType = DietNone | Vegan | Vegetarian | Keto | Paleo | GlutenFree

datatype MealType = Breakfast | Lunch | Dinner | Snack | Dessert

record UserPreferences =
  pref_ingredients :: "jstring list"
  userInstructions :: "jstring list"
  diet :: DietType
  mealType :: MealType
  additionalNotes :: jstring
  specificDietaryRestrictions :: jstring
  pref_cookingTime :: jstring
  image :: "jstring option"

text \<open>
  The \<open>recipe\<close> state variable is typed \<open>Recipe | null\<close>, but \<open>selectFavorite\<close> stores a
  \<open>SavedRecipe\<close> in it, and the object spreads below copy whatever fields are there.
\<close>

datatype current = Generated recipe | Saved saved_recipe

fun recipe_of :: "current \<Rightarrow> recipe" where
  "recipe_of (Generated r) = r"
| "recipe_of (Saved s) = recipe.truncate s"

datatype view = Home | Favorites

record app_state =
  view :: view
  preferences :: UserPreferences
  recipe :: "current option"
  recipeImage :: "jstring option"
  isImageLoading :: bool
  favorites :: "saved_recipe list"
  loading :: bool
  error :: "jstring option"

section \<open>Favourites (App component)\<close>

text \<open>\<open>Array.prototype.findIndex\<close>: the first index whose element satisfies the test, or -1.\<close>

fun findIndex :: "('a \<Rightarrow> bool) \<Rightarrow> 'a list \<Rightarrow> int" where
  "findIndex P [] = -1"
| "findIndex P (x # xs) =
     (if P x then 0 else (let i = findIndex P xs in if i < 0 then -1 else i + 1))"

text \<open>\<open>xs.splice(i, 1)\<close> for \<open>i \<ge> 0\<close>: drops the element at \<open>i\<close>, nothing when out of range.\<close>

definition splice1 :: "nat \<Rightarrow> 'a list \<Rightarrow> 'a list" where
  "splice1 i xs = take i xs @ drop (Suc i) xs"

text \<open>\<open>{...recipe, id, savedAt, imageUrl}\<close>: a rating is kept when the source object has one.\<close>

fun newFavorite :: "jstring \<Rightarrow> nat \<Rightarrow> jstring option \<Rightarrow> current \<Rightarrow> saved_recipe" where
  "newFavorite uuid now img (Generated r) =
     recipe.extend r \<lparr>id = uuid, savedAt = now, imageUrl = img, rating = None\<rparr>"
| "newFavorite uuid now img (Saved s) = s\<lparr>id := uuid, savedAt := now, imageUrl := img\<rparr>"

text \<open>
  \<open>handleToggleFavorite\<close>; \<open>uuid\<close> and \<open>now\<close> are what \<open>crypto.randomUUID()\<close> and
  \<open>Date.now()\<close> return at the call.
\<close>

definition handleToggleFavorite :: "jstring \<Rightarrow> nat \<Rightarrow> app_state \<Rightarrow> app_state" where
  "handleToggleFavorite uuid now st =
     (case recipe st of
        None \<Rightarrow> st
      | Some r \<Rightarrow>
          (let existingIndex = findIndex (\<lambda>f. title f = title (recipe_of r)) (favorites st)
           in if existingIndex \<ge> 0
              then st\<lparr>favorites := splice1 (nat existingIndex) (favorites st)\<rparr>
              else st\<lparr>favorites := newFavorite uuid now (recipeImage st) r # favorites st\<rparr>))"

definition handleRateRecipe :: "jstring \<Rightarrow> jsnum \<Rightarrow> app_state \<Rightarrow> app_state" where
  "handleRateRecipe i r st =
     (let newFavorites = map (\<lambda>fav. if id fav = i then fav\<lparr>rating := Some r\<rparr> else fav) (favorites st);
          st1 = st\<lparr>favorites := newFavorites\<rparr>
      in case recipe st of
           Some (Saved s) \<Rightarrow> if id s = i then st1\<lparr>recipe := Some (Saved (s\<lparr>rating := Some r\<rparr>))\<rparr> else st1
         | _ \<Rightarrow> st1)"

section \<open>Generation service (geminiService)\<close>

text \<open>
  The hosted SDK is an external collaborator. A call either rejects with an error or resolves
  with the part of the response the code reads:
  \<^item> \<open>generateContent\<close>: \<open>response.text\<close>, which may be absent;
  \<^item> \<open>generateImages\<close>: \<open>response.generatedImages?.[0]?.image?.imageBytes\<close>;
  \<^item> \<open>generateVideos\<close>: the operation handle;
  \<^item> \<open>getVideosOperation\<close>: the refreshed handle; the first argument counts the status
    checks made before this one, so that successive checks can answer differently;
  \<^item> \<open>JSON_parse\<close>: \<open>JSON.parse\<close> read at type \<open>Recipe\<close>, as the unchecked cast in
    the source does; a syntax error is a thrown error.
  The prompt texts are built from the arguments recorded in the calls below and play no part
  in the control flow.
\<close>

text \<open>\<open>isDone\<close> is the field \<open>done\<close> of the operation handle.\<close>

record operation =
  isDone :: bool
  videoUri :: "jstring option"

record service =
  apiKey :: jstring
  generateContent :: "UserPreferences \<Rightarrow> error + jstring option"
  JSON_parse :: "jstring \<Rightarrow> error + recipe"
  generateImages :: "jstring \<Rightarrow> jstring \<Rightarrow> error + jstring option"
  generateVideos :: "jstring \<Rightarrow> error + operation"
  getVideosOperation :: "nat \<Rightarrow> operation \<Rightarrow> error + operation"

text \<open>What the code asks of the outside world, in order; \<open>Sleep\<close> carries the milliseconds.\<close>

datatype call =
    GenerateContent UserPreferences
  | GenerateImages jstring jstring
  | GenerateVideos jstring
  | Sleep nat
  | GetVideosOperation nat

text \<open>
  \<open>generateRecipe\<close>: the \<open>catch\<close> block logs and rethrows, so every error of the
  \<open>try\<close> block is the error of the function.
\<close>

definition generateRecipe :: "service \<Rightarrow> UserPreferences \<Rightarrow> (error + recipe) \<times> call list" where
  "generateRecipe svc prefs =
     (case generateContent svc prefs of
        Inl e \<Rightarrow> Inl e
      | Inr text \<Rightarrow>
          (case text of
             None \<Rightarrow> Inl (Error GenericError (str ''No response from AI''))
           | Some t \<Rightarrow>
               if t = [] then Inl (Error GenericError (str ''No response from AI''))
               else JSON_parse svc t),
      [GenerateContent prefs])"

text \<open>\<open>generateDishImage\<close>: the \<open>catch\<close> block logs and returns \<open>null\<close>.\<close>

definition generateDishImage ::
  "service \<Rightarrow> jstring \<Rightarrow> jstring \<Rightarrow> (error + jstring option) \<times> call list" where
  "generateDishImage svc recipeTitle recipeDescription =
     (case generateImages svc recipeTitle recipeDescription of
        Inl e \<Rightarrow> Inr None
      | Inr base64ImageBytes \<Rightarrow>
          (case base64ImageBytes of
             None \<Rightarrow> Inr None
           | Some b \<Rightarrow> if b \<noteq> [] then Inr (Some (str ''data:image/jpeg;base64,'' @ b))
                       else Inr None),
      [GenerateImages recipeTitle recipeDescription])"

text \<open>
  The polling loop of \<open>generateRecipeVideo\<close>. The source sets no bound on the number of
  rounds, so the loop may not return: that is the value \<open>None\<close>. \<open>n\<close> counts the status
  checks made so far and \<open>tr\<close> is the trace up to here.
\<close>

partial_function (option) pollLoop ::
  "service \<Rightarrow> nat \<Rightarrow> operation \<Rightarrow> call list \<Rightarrow> ((error + operation) \<times> call list) option" where
  "pollLoop svc n operation tr =
     (if isDone operation then Some (Inr operation, tr)
      else (case getVideosOperation svc n operation of
              Inl e \<Rightarrow> Some (Inl e, tr @ [Sleep 5000, GetVideosOperation n])
            | Inr operation' \<Rightarrow>
                pollLoop svc (Suc n) operation' (tr @ [Sleep 5000, GetVideosOperation n])))"

text \<open>
  \<open>generateRecipeVideo\<close>: errors are logged and rethrown. A missing or empty URI gives
  \<open>null\<close>; otherwise the key is appended for playback.
\<close>

definition generateRecipeVideo ::
  "service \<Rightarrow> recipe \<Rightarrow> ((error + jstring option) \<times> call list) option" where
  "generateRecipeVideo svc r =
     (case generateVideos svc (title r) of
        Inl e \<Rightarrow> Some (Inl e, [GenerateVideos (title r)])
      | Inr operation \<Rightarrow>
          (case pollLoop svc 0 operation [GenerateVideos (title r)] of
             None \<Rightarrow> None
           | Some (Inl e, tr) \<Rightarrow> Some (Inl e, tr)
           | Some (Inr op, tr) \<Rightarrow>
               (case videoUri op of
                  None \<Rightarrow> Some (Inr None, tr)
                | Some uri \<Rightarrow>
                    if uri = [] then Some (Inr None, tr)
                    else Some (Inr (Some (uri @ str ''&key='' @ apiKey svc)), tr))))"

section \<open>Generating a recipe (App component)\<close>

text \<open>
  \<open>handleGenerate\<close> up to the end of its \<open>finally\<close> block. The result is the state then,
  the calls made, and the image promise left running, if any (its result and its call).
  The timer that cycles the loading message is not part of the state modelled here.
\<close>

definition handleGenerate ::
  "service \<Rightarrow> app_state \<Rightarrow> app_state \<times> call list \<times> (error + jstring option) option" where
  "handleGenerate svc st =
     (let st0 = st\<lparr>loading := True, error := None, recipe := None, recipeImage := None,
                   isImageLoading := True, view := Home\<rparr>;
          (res, tr) = generateRecipe svc (preferences st)
      in case res of
           Inr recipeData \<Rightarrow>
             (let st1 = st0\<lparr>recipe := Some (Generated recipeData)\<rparr>;
                  (img, tr') = generateDishImage svc (title recipeData) (description recipeData)
              in (st1\<lparr>loading := False\<rparr>, tr @ tr', Some img))
         | Inl err \<Rightarrow>
             (st0\<lparr>error := Some (str ''Oops! The kitchen is a bit chaotic right now. Please try again. ''
                                  @ message err),
                  isImageLoading := False, loading := False\<rparr>,
              tr, None))"

text \<open>
  The detached chain on the image promise:
  \<open>.then(img => setRecipeImage(img)).catch(...).finally(() => setIsImageLoading(false))\<close>.
\<close>

definition imageSettled :: "(error + jstring option) \<Rightarrow> app_state \<Rightarrow> app_state" where
  "imageSettled img st =
     (case img of
        Inr i \<Rightarrow> st\<lparr>recipeImage := i, isImageLoading := False\<rparr>
      | Inl err \<Rightarrow> st\<lparr>isImageLoading := False\<rparr>)"

text \<open>The whole of a generation: the handler, then the image chain when there is one.\<close>

definition generation :: "service \<Rightarrow> app_state \<Rightarrow> app_state \<times> call list" where
  "generation svc st =
     (case handleGenerate svc st of
        (st', tr, None) \<Rightarrow> (st', tr)
      | (st', tr, Some img) \<Rightarrow> (imageSettled img st', tr))"


text \<open>The number of status checks in a trace.\<close>

fun statusChecks :: "call list \<Rightarrow> nat" where
  "statusChecks [] = 0"
| "statusChecks (GetVideosOperation n # cs) = Suc (statusChecks cs)"
| "statusChecks (c # cs) = statusChecks cs"

section \<open>Host-language primitives used by the quantity scaler\<close>

subsection \<open>Arithmetic on numbers\<close>

text \<open>The infinity with the sign of a rational; the product \<open>Infinity * 0\<close> is \<open>NaN\<close>.\<close>

definition inf_of :: "rat \<Rightarrow> jsnum" where
  "inf_of s = (if s = 0 then NaN else if 0 < s then PosInf else NegInf)"

fun js_mul :: "jsnum \<Rightarrow> jsnum \<Rightarrow> jsnum" where
  "js_mul NaN y = NaN"
| "js_mul x NaN = NaN"
| "js_mul (Fin a) (Fin b) = Fin (a * b)"
| "js_mul (Fin a) PosInf = inf_of a"
| "js_mul (Fin a) NegInf = inf_of (- a)"
| "js_mul PosInf (Fin b) = inf_of b"
| "js_mul NegInf (Fin b) = inf_of (- b)"
| "js_mul PosInf PosInf = PosInf"
| "js_mul PosInf NegInf = NegInf"
| "js_mul NegInf PosInf = NegInf"
| "js_mul NegInf NegInf = PosInf"

text \<open>Division by zero gives an infinity, or \<open>NaN\<close> for \<open>0 / 0\<close>; a zero divisor counts as \<open>+0\<close>.\<close>

fun js_div :: "jsnum \<Rightarrow> jsnum \<Rightarrow> jsnum" where
  "js_div NaN y = NaN"
| "js_div x NaN = NaN"
| "js_div (Fin a) (Fin b) = (if b = 0 then inf_of a else Fin (a / b))"
| "js_div (Fin a) PosInf = Fin 0"
| "js_div (Fin a) NegInf = Fin 0"
| "js_div PosInf (Fin b) = (if b < 0 then NegInf else PosInf)"
| "js_div NegInf (Fin b) = (if b < 0 then PosInf else NegInf)"
| "js_div PosInf PosInf = NaN"
| "js_div PosInf NegInf = NaN"
| "js_div NegInf PosInf = NaN"
| "js_div NegInf NegInf = NaN"

fun js_sub :: "jsnum \<Rightarrow> jsnum \<Rightarrow> jsnum" where
  "js_sub NaN y = NaN"
| "js_sub x NaN = NaN"
| "js_sub (Fin a) (Fin b) = Fin (a - b)"
| "js_sub (Fin a) PosInf = NegInf"
| "js_sub (Fin a) NegInf = PosInf"
| "js_sub PosInf (Fin b) = PosInf"
| "js_sub NegInf (Fin b) = NegInf"
| "js_sub PosInf PosInf = NaN"
| "js_sub PosInf NegInf = PosInf"
| "js_sub NegInf PosInf = NegInf"
| "js_sub NegInf NegInf = NaN"

text \<open>\<open>Math.floor\<close> and \<open>Math.abs\<close>.\<close>

fun js_floor :: "jsnum \<Rightarrow> jsnum" where
  "js_floor (Fin a) = Fin (of_int \<lfloor>a\<rfloor>)"
| "js_floor x = x"

fun js_abs :: "jsnum \<Rightarrow> jsnum" where
  "js_abs (Fin a) = Fin \<bar>a\<bar>"
| "js_abs NegInf = PosInf"
| "js_abs x = x"

text \<open>\<open>x < y\<close>: false as soon as one side is \<open>NaN\<close>.\<close>

fun js_lt :: "jsnum \<Rightarrow> jsnum \<Rightarrow> bool" where
  "js_lt NaN y = False"
| "js_lt x NaN = False"
| "js_lt (Fin a) (Fin b) = (a < b)"
| "js_lt (Fin a) PosInf = True"
| "js_lt (Fin a) NegInf = False"
| "js_lt PosInf y = False"
| "js_lt NegInf (Fin b) = True"
| "js_lt NegInf PosInf = True"
| "js_lt NegInf NegInf = False"

fun js_isNaN :: "jsnum \<Rightarrow> bool" where
  "js_isNaN NaN = True"
| "js_isNaN x = False"

text \<open>\<open>x === y\<close> on numbers: \<open>NaN\<close> equals nothing, itself included.\<close>

fun js_strict_eq :: "jsnum \<Rightarrow> jsnum \<Rightarrow> bool" where
  "js_strict_eq NaN y = False"
| "js_strict_eq x NaN = False"
| "js_strict_eq x y = (x = y)"

subsection \<open>Strings\<close>

text \<open>The white space that \<open>trim\<close> and \<open>parseFloat\<close> skip (WhiteSpace and LineTerminator).\<close>

definition is_ws :: "nat \<Rightarrow> bool" where
  "is_ws c \<longleftrightarrow>
     (9 \<le> c \<and> c \<le> 13) \<or> c = 32 \<or> c = 160 \<or> c = 5760 \<or> (8192 \<le> c \<and> c \<le> 8202)
     \<or> c = 8232 \<or> c = 8233 \<or> c = 8239 \<or> c = 8287 \<or> c = 12288 \<or> c = 65279"

definition is_digit :: "nat \<Rightarrow> bool" where
  "is_digit c \<longleftrightarrow> 48 \<le> c \<and> c \<le> 57"

definition trim :: "jstring \<Rightarrow> jstring" where
  "trim s = rev (dropWhile is_ws (rev (dropWhile is_ws s)))"

text \<open>\<open>s.split(c)\<close> for a separator of one code unit: never an empty list of pieces.\<close>

fun split_on :: "nat \<Rightarrow> jstring \<Rightarrow> jstring list" where
  "split_on c [] = [[]]"
| "split_on c (x # xs) =
     (if x = c then [] # split_on c xs
      else (case split_on c xs of p # ps \<Rightarrow> (x # p) # ps | [] \<Rightarrow> [[x]]))"

text \<open>\<open>s.includes(c)\<close> for a \<open>c\<close> of one code unit.\<close>

definition includes_unit :: "jstring \<Rightarrow> nat \<Rightarrow> bool" where
  "includes_unit s c \<longleftrightarrow> c \<in> set s"

fun join :: "jstring \<Rightarrow> jstring list \<Rightarrow> jstring" where
  "join sep [] = []"
| "join sep [x] = x"
| "join sep (x # y # r) = x @ sep @ join sep (y # r)"

text \<open>\<open>s.replace(pat, rep)\<close> with a string pattern: only the first occurrence is replaced.\<close>

fun replace_first :: "jstring \<Rightarrow> jstring \<Rightarrow> jstring \<Rightarrow> jstring" where
  "replace_first pat rep [] = (if pat = [] then rep else [])"
| "replace_first pat rep (x # xs) =
     (if take (length pat) (x # xs) = pat then rep @ drop (length pat) (x # xs)
      else x # replace_first pat rep xs)"

subsection \<open>Numbers to strings\<close>

fun nat_toString :: "nat \<Rightarrow> jstring" where
  "nat_toString n = (if n < 10 then [48 + n] else nat_toString (n div 10) @ [48 + n mod 10])"

declare nat_toString.simps [simp del]

definition int_toString :: "int \<Rightarrow> jstring" where
  "int_toString i = (if i < 0 then 45 # nat_toString (nat (- i)) else nat_toString (nat i))"

text \<open>
  \<open>Number::toString\<close> on the values it meets here, the results of \<open>Math.floor\<close>: an
  integer prints as its decimal digits, at any size (the host changes to exponent notation
  from \<open>10^21\<close> on, where a binary double is no longer exact either).
\<close>

fun js_toString :: "jsnum \<Rightarrow> jstring" where
  "js_toString (Fin a) = int_toString \<lfloor>a\<rfloor>"
| "js_toString PosInf = str ''Infinity''"
| "js_toString NegInf = str ''-Infinity''"
| "js_toString NaN = str ''NaN''"

text \<open>
  \<open>x.toFixed(digits)\<close>: a \<open>RangeError\<close> outside 0..100; a non-finite number prints as by
  \<open>toString\<close>; otherwise the sign, then the integer \<open>n\<close> nearest to \<open>|x| * 10^digits\<close> (the
  larger one on a tie), padded with zeros to more than \<open>digits\<close> digits, with the point
  before the last \<open>digits\<close> of them. From \<open>10^21\<close> on the host prints exponent notation
  instead; here the digits are printed at any size.
\<close>

definition toFixed :: "nat \<Rightarrow> jsnum \<Rightarrow> error + jstring" where
  "toFixed digits x =
     (if 100 < digits
      then Inl (Error RangeError (str ''toFixed() digits argument must be between 0 and 100''))
      else (case x of
              Fin a \<Rightarrow>
                (let n = nat \<lfloor>\<bar>a\<bar> * 10 ^ digits + 1 / 2\<rfloor>;
                     m = nat_toString n;
                     z = replicate (Suc digits - length m) 48 @ m;
                     k = length z;
                     body = (if digits = 0 then m
                             else take (k - digits) z @ [46] @ drop (k - digits) z)
                 in Inr ((if a < 0 then [45] else []) @ body))
            | other \<Rightarrow> Inr (js_toString other)))"

subsection \<open>Strings to numbers\<close>

definition digits_val :: "jstring \<Rightarrow> nat" where
  "digits_val ds = foldl (\<lambda>a d. 10 * a + (d - 48)) 0 ds"

definition strip_sign :: "jstring \<Rightarrow> bool \<times> jstring" where
  "strip_sign s =
     (case s of
        [] \<Rightarrow> (False, [])
      | c # r \<Rightarrow> if c = 45 then (True, r) else if c = 43 then (False, r) else (False, s))"

text \<open>The exponent part \<open>e\<close> or \<open>E\<close>, a sign, digits; it counts only when digits are there.\<close>

definition parse_exponent :: "jstring \<Rightarrow> int" where
  "parse_exponent s =
     (case s of
        [] \<Rightarrow> 0
      | c # r \<Rightarrow>
          if c = 101 \<or> c = 69
          then (let (neg, r') = strip_sign r; ds = takeWhile is_digit r'
                in if ds = [] then 0
                   else if neg then - int (digits_val ds) else int (digits_val ds))
          else 0)"

definition scale10 :: "rat \<Rightarrow> int \<Rightarrow> rat" where
  "scale10 m e = (if 0 \<le> e then m * 10 ^ nat e else m / 10 ^ nat (- e))"

text \<open>
  \<open>parseFloat\<close>: skip leading white space, then read the longest prefix that is a decimal
  literal (sign, \<open>Infinity\<close> or digits with an optional point and exponent) and ignore what
  follows it; \<open>NaN\<close> when there is no such prefix. The value is exact: a literal too large
  for a double, which the host reads as an infinity, stays finite here.
\<close>

definition parseFloat :: "jstring \<Rightarrow> jsnum" where
  "parseFloat s =
     (let (neg, u) = strip_sign (dropWhile is_ws s)
      in if take 8 u = str ''Infinity'' then (if neg then NegInf else PosInf)
         else
           (let ip = takeWhile is_digit u;
                r1 = dropWhile is_digit u;
                hasDot = (case r1 of [] \<Rightarrow> False | c # r \<Rightarrow> c = 46);
                fp = (if hasDot then takeWhile is_digit (tl r1) else []);
                r2 = (if hasDot then dropWhile is_digit (tl r1) else r1)
            in if ip = [] \<and> fp = [] then NaN
               else
                 (let mant = of_nat (digits_val ip) + of_nat (digits_val fp) / 10 ^ length fp;
                      v = scale10 mant (parse_exponent r2)
                  in Fin (if neg then - v else v))))"

section \<open>Quantity scaler (RecipeResult component)\<close>

text \<open>\<open>${Math.floor(num) > 0 ? Math.floor(num) + ' ' : ''}\<close>\<close>

definition wholePrefix :: "jsnum \<Rightarrow> jstring" where
  "wholePrefix num =
     (if js_lt (Fin 0) (js_floor num) then js_toString (js_floor num) @ [32] else [])"

text \<open>
  \<open>formatNumber\<close>, the helper inside \<open>getScaledQuantity\<close>. The glyphs are the code units
  188 (one quarter), 8531 (one third), 189 (one half), 8532 (two thirds), 190 (three quarters).
\<close>

definition formatNumber :: "jsnum \<Rightarrow> error + jstring" where
  "formatNumber num =
     (let decimal = js_sub num (js_floor num)
      in if js_lt decimal (Fin (1 / 100)) then Inr (js_toString (js_floor num))
         else if js_lt (js_abs (js_sub decimal (Fin (25 / 100)))) (Fin (5 / 100))
           then Inr (wholePrefix num @ [188])
         else if js_lt (js_abs (js_sub decimal (Fin (33 / 100)))) (Fin (5 / 100))
           then Inr (wholePrefix num @ [8531])
         else if js_lt (js_abs (js_sub decimal (Fin (5 / 10)))) (Fin (5 / 100))
           then Inr (wholePrefix num @ [189])
         else if js_lt (js_abs (js_sub decimal (Fin (66 / 100)))) (Fin (5 / 100))
           then Inr (wholePrefix num @ [8532])
         else if js_lt (js_abs (js_sub decimal (Fin (75 / 100)))) (Fin (5 / 100))
           then Inr (wholePrefix num @ [190])
         else (case toFixed 1 num of
                 Inl e \<Rightarrow> Inl e
               | Inr s \<Rightarrow> Inr (replace_first (str ''.0'') [] s)))"

text \<open>\<open>parts[i]\<close>: past the end it is \<open>undefined\<close>, which every use below treats as \<open>NaN\<close>.\<close>

definition part :: "jsnum list \<Rightarrow> nat \<Rightarrow> jsnum" where
  "part parts i = (if i < length parts then parts ! i else NaN)"

text \<open>
  The \<open>try\<close> block of \<open>getScaledQuantity\<close>: \<open>Inr (Some s)\<close> is a \<open>return s\<close> inside
  the block, \<open>Inr None\<close> is leaving the block without returning, \<open>Inl e\<close> is a thrown \<open>e\<close>.
\<close>

definition scaleBody :: "jstring \<Rightarrow> jsnum \<Rightarrow> error + jstring option" where
  "scaleBody qty ratio =
     (if includes_unit qty 45 then
        (let parts = map (\<lambda>p. parseFloat (trim p)) (split_on 45 qty)
         in if list_all (\<lambda>p. \<not> js_isNaN p) parts
            then (case formatNumber (js_mul (part parts 0) ratio) of
                    Inl e \<Rightarrow> Inl e
                  | Inr lo \<Rightarrow>
                      (case formatNumber (js_mul (part parts 1) ratio) of
                         Inl e \<Rightarrow> Inl e
                       | Inr hi \<Rightarrow> Inr (Some (lo @ [45] @ hi))))
            else Inr None)
      else if includes_unit qty 47 then
        (let parts = map (\<lambda>p. parseFloat (trim p)) (split_on 47 qty);
             num = part parts 0;
             den = part parts 1
         in if \<not> js_isNaN num \<and> \<not> js_isNaN den \<and> \<not> js_strict_eq den (Fin 0)
            then (case formatNumber (js_mul (js_div num den) ratio) of
                    Inl e \<Rightarrow> Inl e
                  | Inr s \<Rightarrow> Inr (Some s))
            else Inr None)
      else
        (let parsed = parseFloat qty
         in if \<not> js_isNaN parsed
            then (case formatNumber (js_mul parsed ratio) of
                    Inl e \<Rightarrow> Inl e
                  | Inr s \<Rightarrow> Inr (Some s))
            else Inr None))"

text \<open>
  \<open>getScaledQuantity\<close>; \<open>qty\<close> is the parameter \<open>quantity\<close>. The \<open>catch\<close> block and the
  last line both return it as it came.
\<close>

definition getScaledQuantity :: "jstring \<Rightarrow> jsnum \<Rightarrow> jsnum \<Rightarrow> error + jstring" where
  "getScaledQuantity qty base target =
     (if qty = [] then Inr []
      else if js_strict_eq base target then Inr qty
      else (let ratio = js_div target base
            in case scaleBody qty ratio of
                 Inl e \<Rightarrow> Inr qty
               | Inr (Some s) \<Rightarrow> Inr s
               | Inr None \<Rightarrow> Inr qty))"

section \<open>Ingredient display (RecipeResult component)\<close>

text \<open>\<open>ingredients.length > 0 && typeof ingredients[0] === 'object'\<close>\<close>

definition isStructuredIngredients :: "ingredient list \<Rightarrow> bool" where
  "isStructuredIngredients ings =
     (case ings of
        [] \<Rightarrow> False
      | Plain s # rest \<Rightarrow> False
      | Structured i # rest \<Rightarrow> True)"

text \<open>\<open>[scaledQty, ing.unit, ing.item].filter(Boolean).join(' ')\<close>: empty strings drop out.\<close>

definition formatIngredientText :: "ingredient \<Rightarrow> jsnum \<Rightarrow> jsnum \<Rightarrow> error + jstring" where
  "formatIngredientText ing baseServings currentServings =
     (case ing of
        Plain s \<Rightarrow> Inr s
      | Structured i \<Rightarrow>
          (case getScaledQuantity (quantity i) baseServings currentServings of
             Inl e \<Rightarrow> Inl e
           | Inr scaledQty \<Rightarrow>
               Inr (join [32] (filter (\<lambda>p. p \<noteq> []) [scaledQty, unit i, item i]))))"

text \<open>Whether a number, possibly absent, counts as true in a condition.\<close>

fun truthy :: "jsnum option \<Rightarrow> bool" where
  "truthy None = False"
| "truthy (Some NaN) = False"
| "truthy (Some (Fin a)) = (a \<noteq> 0)"
| "truthy (Some x) = True"

text \<open>\<open>recipe.servings || 4\<close>\<close>

definition baseServings :: "recipe \<Rightarrow> jsnum" where
  "baseServings r = (if truthy (servings r) then the (servings r) else Fin 4)"

text \<open>
  \<open>canScale\<close> as the condition \<open>{canScale && ...}\<close> of the serving control: the control is
  there exactly when the value is true in the sense above.
\<close>

definition canScale :: "recipe \<Rightarrow> bool" where
  "canScale r \<longleftrightarrow> isStructuredIngredients (ingredients r) \<and> truthy (servings r)"

text \<open>The texts of the ingredient list, one per ingredient, for the serving count chosen.\<close>

definition ingredientTexts :: "recipe \<Rightarrow> jsnum \<Rightarrow> (error + jstring) list" where
  "ingredientTexts r currentServings =
     map (\<lambda>ing. case ing of
                  Plain s \<Rightarrow> Inr s
                | Structured i \<Rightarrow> formatIngredientText ing (baseServings r) currentServings)
         (ingredients r)"

section \<open>The words of the specification, for comparison with the code\<close>

text \<open>
  The formatting rule as the specification words it. The table pairs each fraction with its
  glyph, in the order given; the matching glyph is that of the first entry within 0.05.
\<close>

definition spec_glyphs :: "(rat \<times> jstring) list" where
  "spec_glyphs =
     [(25 / 100, [188]), (33 / 100, [8531]), (5 / 10, [189]), (66 / 100, [8532]),
      (75 / 100, [190])]"

text \<open>
  A value rounded to one decimal place (halves away from zero), written with its sign, the
  digits of the whole tenths before the point and the last digit after it.
\<close>

definition spec_round1 :: "rat \<Rightarrow> jstring" where
  "spec_round1 v =
     (let n = nat \<lfloor>\<bar>v\<bar> * 10 + 1 / 2\<rfloor>
      in (if v < 0 then [45] else []) @ nat_toString (n div 10) @ [46] @ [48 + n mod 10])"

definition spec_strip_point_zero :: "jstring \<Rightarrow> jstring" where
  "spec_strip_point_zero s =
     (if 2 \<le> length s \<and> drop (length s - 2) s = str ''.0'' then take (length s - 2) s else s)"

definition spec_format :: "rat \<Rightarrow> jstring" where
  "spec_format v =
     (let whole = \<lfloor>v\<rfloor>; frac = v - of_int whole
      in if frac < 1 / 100 then int_toString whole
         else (case find (\<lambda>(c, g). \<bar>frac - c\<bar> < 5 / 100) spec_glyphs of
                 Some (c, g) \<Rightarrow> (if 0 < whole then int_toString whole @ [32] else []) @ g
               | None \<Rightarrow> spec_strip_point_zero (spec_round1 v)))"

text \<open>
  The scalable shapes as the specification lists them: an integer, a decimal, "a/b" with
  both parts numbers and b not zero, "a-b" with both parts numbers. A number here is an
  optional sign, digits, and optionally a point with more digits; it is zero when it has no
  digit other than 0.
\<close>

definition spec_number :: "jstring \<Rightarrow> bool" where
  "spec_number s =
     (let u = snd (strip_sign s); ip = takeWhile is_digit u; r = dropWhile is_digit u
      in ip \<noteq> [] \<and> (case r of [] \<Rightarrow> True | c # f \<Rightarrow> c = 46 \<and> f \<noteq> [] \<and> list_all is_digit f))"

definition spec_zero :: "jstring \<Rightarrow> bool" where
  "spec_zero s \<longleftrightarrow> filter (\<lambda>c. is_digit c \<and> c \<noteq> 48) s = []"

definition spec_scalable :: "jstring \<Rightarrow> bool" where
  "spec_scalable q \<longleftrightarrow>
     spec_number q
     \<or> (case split_on 47 q of
           [a, b] \<Rightarrow> spec_number (trim a) \<and> spec_number (trim b) \<and> \<not> spec_zero b
         | other \<Rightarrow> False)
     \<or> (case split_on 45 q of
           [a, b] \<Rightarrow> spec_number (trim a) \<and> spec_number (trim b)
         | other \<Rightarrow> False)"

section \<open>The code's test for a number, stated on the string\<close>

text \<open>
  What the code takes for a number: after leading white space and an optional sign the string
  goes on with \<open>Infinity\<close>, with a digit, or with a point and a digit. Anything may follow.
\<close>

definition has_number :: "jstring \<Rightarrow> bool" where
  "has_number s =
     (let u = snd (strip_sign (dropWhile is_ws s))
      in take 8 u = str ''Infinity''
         \<or> (case u of
               [] \<Rightarrow> False
             | c # r \<Rightarrow> is_digit c \<or> (c = 46 \<and> (case r of [] \<Rightarrow> False | d # r' \<Rightarrow> is_digit d))))"

text \<open>
  The quantities the code scales: with a \<open>-\<close>, every piece between the \<open>-\<close> signs has a
  number; else with a \<open>/\<close>, the first two pieces have one and the second is not zero; else
  the string itself has one.
\<close>

definition scalable :: "jstring \<Rightarrow> bool" where
  "scalable q =
     (if includes_unit q 45 then list_all (\<lambda>p. has_number (trim p)) (split_on 45 q)
      else if includes_unit q 47 then
        (case split_on 47 q of
           a # b # rest \<Rightarrow>
             has_number (trim a) \<and> has_number (trim b) \<and> parseFloat (trim b) \<noteq> Fin 0
         | other \<Rightarrow> False)
      else has_number q)"

section \<open>Concrete values used to exercise the theorems\<close>

definition example_recipe :: recipe where
  "example_recipe =
     \<lparr>title = str ''Soup'', description = str ''Warm'', cookingTime = str ''30 mins'',
      difficulty = str ''Easy'', servings = Some (Fin 2),
      ingredients = [Structured \<lparr>item = str ''salt'', quantity = str ''1/2'', unit = str ''tsp''\<rparr>],
      instructions = [str ''Boil''],
      macros = \<lparr>calories = Fin 100, protein = Fin 5, carbs = Fin 10, fats = Fin 2\<rparr>\<rparr>"

definition example_saved :: saved_recipe where
  "example_saved =
     recipe.extend example_recipe
       \<lparr>id = str ''id-1'', savedAt = 7, imageUrl = None, rating = None\<rparr>"

definition example_prefs :: UserPreferences where
  "example_prefs =
     \<lparr>pref_ingredients = [str ''salt''], userInstructions = [], diet = DietNone,
      mealType = Dinner, additionalNotes = [], specificDietaryRestrictions = [],
      pref_cookingTime = [], image = None\<rparr>"

definition example_state :: "saved_recipe list \<Rightarrow> app_state" where
  "example_state favs =
     \<lparr>view = Home, preferences = example_prefs, recipe = Some (Generated example_recipe),
      recipeImage = None, isImageLoading = False, favorites = favs, loading = False,
      error = None\<rparr>"

text \<open>
  A service whose text and image answers are given, whose parser accepts one text, and whose
  video operation is done from the third status check on.
\<close>

definition example_service ::
  "(error + jstring option) \<Rightarrow> (error + jstring option) \<Rightarrow> service" where
  "example_service text img =
     \<lparr>apiKey = str ''K'',
      generateContent = (\<lambda>p. text),
      JSON_parse = (\<lambda>t. if t = str ''{}'' then Inr example_recipe
                         else Inl (Error SyntaxError (str ''Unexpected token''))),
      generateImages = (\<lambda>t d. img),
      generateVideos = (\<lambda>t. Inr \<lparr>isDone = False, videoUri = None\<rparr>),
      getVideosOperation = (\<lambda>n operation.
         if n < 2 then Inr \<lparr>isDone = False, videoUri = None\<rparr>
         else Inr \<lparr>isDone = True, videoUri = Some (str ''https://v/1?alt=media'')\<rparr>)\<rparr>"

text \<open>The handles of that operation: the request's, then one per status check.\<close>

definition example_ops :: "nat \<Rightarrow> operation" where
  "example_ops i = (if i < 3 then \<lparr>isDone = False, videoUri = None\<rparr>
                    else \<lparr>isDone = True, videoUri = Some (str ''https://v/1?alt=media'')\<rparr>)"

section \<open>Properties of the favourites list\<close>

lemma findIndex_ge_m1: "findIndex P xs \<ge> -1"
  by (induction xs) (auto simp: Let_def)

lemma findIndex_neg_iff: "findIndex P xs < 0 \<longleftrightarrow> (\<forall>x \<in> set xs. \<not> P x)"
  by (induction xs) (auto simp: Let_def)

lemma findIndex_split:
  "findIndex P xs \<ge> 0 \<Longrightarrow>
   \<exists>pre x post. xs = pre @ x # post \<and> P x \<and> (\<forall>y \<in> set pre. \<not> P y)
      \<and> nat (findIndex P xs) = length pre"
proof (induction xs)
  case Nil
  then show ?case by simp
next
  case (Cons a xs)
  show ?case
  proof (cases "P a")
    case True
    then have "a # xs = [] @ a # xs \<and> P a \<and> (\<forall>y \<in> set []. \<not> P y)
        \<and> nat (findIndex P (a # xs)) = length ([]::'a list)"
      by simp
    then show ?thesis by blast
  next
    case False
    with Cons.prems have ge: "findIndex P xs \<ge> 0"
      by (auto simp: Let_def split: if_splits)
    from Cons.IH [OF ge] obtain pre x post where
      h: "xs = pre @ x # post" "P x" "\<forall>y \<in> set pre. \<not> P y" "nat (findIndex P xs) = length pre"
      by blast
    from False ge h have "a # xs = (a # pre) @ x # post \<and> P x \<and> (\<forall>y \<in> set (a # pre). \<not> P y)
        \<and> nat (findIndex P (a # xs)) = length (a # pre)"
      by (auto simp: Let_def nat_add_distrib)
    then show ?thesis by blast
  qed
qed

lemma splice1_at: "splice1 (length pre) (pre @ x # post) = pre @ post"
  by (simp add: splice1_def)


lemma toggle_present:
  assumes "recipe st = Some r" "\<exists>f \<in> set (favorites st). title f = title (recipe_of r)"
  shows "\<exists>pre x post. favorites st = pre @ x # post \<and> title x = title (recipe_of r)
           \<and> (\<forall>y \<in> set pre. title y \<noteq> title (recipe_of r))
           \<and> favorites (handleToggleFavorite uuid now st) = pre @ post"
proof -
  let ?P = "\<lambda>f. title f = title (recipe_of r)"
  from assms(2) have ge: "findIndex ?P (favorites st) \<ge> 0"
    using findIndex_neg_iff [of ?P "favorites st"] by force
  from findIndex_split [OF ge] obtain pre x post where
    h: "favorites st = pre @ x # post" "?P x" "\<forall>y \<in> set pre. \<not> ?P y"
       "nat (findIndex ?P (favorites st)) = length pre"
    by blast
  have "favorites (handleToggleFavorite uuid now st) = splice1 (length pre) (pre @ x # post)"
    using assms(1) ge h(1,4) by (simp add: handleToggleFavorite_def Let_def)
  with h show ?thesis by (metis splice1_at)
qed

lemma toggle_absent:
  assumes "recipe st = Some r" "\<forall>f \<in> set (favorites st). title f \<noteq> title (recipe_of r)"
  shows "handleToggleFavorite uuid now st
           = st\<lparr>favorites := newFavorite uuid now (recipeImage st) r # favorites st\<rparr>"
proof -
  let ?P = "\<lambda>f. title f = title (recipe_of r)"
  from assms(2) have "findIndex ?P (favorites st) < 0"
    using findIndex_neg_iff [of ?P "favorites st"] by simp
  then show ?thesis using assms(1) by (simp add: handleToggleFavorite_def Let_def)
qed

lemma title_newFavorite: "title (newFavorite uuid now img r) = title (recipe_of r)"
  by (cases r) (simp_all add: recipe.extend_def recipe.truncate_def)

lemma toggle_twice:
  assumes "recipe st = Some r" "\<forall>f \<in> set (favorites st). title f \<noteq> title (recipe_of r)"
  shows "handleToggleFavorite uuid' now' (handleToggleFavorite uuid now st) = st"
proof -
  let ?P = "\<lambda>f. title f = title (recipe_of r)"
  let ?n = "newFavorite uuid now (recipeImage st) r"
  have 1: "handleToggleFavorite uuid now st = st\<lparr>favorites := ?n # favorites st\<rparr>"
    by (rule toggle_absent [OF assms])
  have "findIndex ?P (?n # favorites st) = 0"
    by (simp add: title_newFavorite)
  then show ?thesis
    unfolding 1 using assms(1) by (simp add: handleToggleFavorite_def Let_def splice1_def)
qed

lemma toggle_count:
  assumes "recipe st = Some r"
  shows "length (filter (\<lambda>f. title f = title (recipe_of r))
                  (favorites (handleToggleFavorite uuid now st)))
       = (let n = length (filter (\<lambda>f. title f = title (recipe_of r)) (favorites st))
          in if n = 0 then 1 else n - 1)"
proof (cases "\<exists>f \<in> set (favorites st). title f = title (recipe_of r)")
  case True
  from toggle_present [OF assms True, of uuid now] obtain pre x post where
    h: "favorites st = pre @ x # post" "title x = title (recipe_of r)"
       "\<forall>y \<in> set pre. title y \<noteq> title (recipe_of r)"
       "favorites (handleToggleFavorite uuid now st) = pre @ post"
    by blast
  then show ?thesis by (simp add: Let_def)
next
  case False
  then have a: "\<forall>f \<in> set (favorites st). title f \<noteq> title (recipe_of r)" by blast
  then have "filter (\<lambda>f. title f = title (recipe_of r)) (favorites st) = []"
    by (simp add: filter_empty_conv)
  then show ?thesis
    by (simp add: toggle_absent [OF assms a] title_newFavorite Let_def)
qed

lemma toggle_distinct:
  assumes "recipe st = Some r" "distinct (map title (favorites st))"
  shows "distinct (map title (favorites (handleToggleFavorite uuid now st)))"
proof (cases "\<exists>f \<in> set (favorites st). title f = title (recipe_of r)")
  case True
  from toggle_present [OF assms(1) True, of uuid now] obtain pre x post where
    h: "favorites st = pre @ x # post"
       "favorites (handleToggleFavorite uuid now st) = pre @ post"
    by blast
  with assms(2) show ?thesis by auto
next
  case False
  then have a: "\<forall>f \<in> set (favorites st). title f \<noteq> title (recipe_of r)" by blast
  show ?thesis using assms(2) a
    by (auto simp add: toggle_absent [OF assms(1) a] title_newFavorite)
qed

text \<open>
  Claim C8. Favouriting toggles on the title of the recipe on display. When an entry of the
  list carries that title, the toggle removes the first such entry and touches nothing else.
  When none does, the toggle puts a new saved recipe at the front, and a second toggle right
  after it restores the state, so the list again holds no entry with the title. A toggle
  turns a count of zero entries with the title into one and otherwise lowers the count by
  one, so it never creates a second entry; a list whose titles are pairwise distinct stays so.
\<close>

theorem toggle_favorite_by_title:
  assumes "recipe st = Some r"
  shows "((\<exists>f \<in> set (favorites st). title f = title (recipe_of r)) \<longrightarrow>
            (\<exists>pre x post. favorites st = pre @ x # post \<and> title x = title (recipe_of r)
               \<and> (\<forall>y \<in> set pre. title y \<noteq> title (recipe_of r))
               \<and> favorites (handleToggleFavorite uuid now st) = pre @ post))
       \<and> ((\<forall>f \<in> set (favorites st). title f \<noteq> title (recipe_of r)) \<longrightarrow>
            favorites (handleToggleFavorite uuid now st)
              = newFavorite uuid now (recipeImage st) r # favorites st
            \<and> handleToggleFavorite uuid' now' (handleToggleFavorite uuid now st) = st
            \<and> (\<forall>f \<in> set (favorites (handleToggleFavorite uuid' now'
                                        (handleToggleFavorite uuid now st))).
                   title f \<noteq> title (recipe_of r)))
       \<and> length (filter (\<lambda>f. title f = title (recipe_of r))
                   (favorites (handleToggleFavorite uuid now st)))
           = (let n = length (filter (\<lambda>f. title f = title (recipe_of r)) (favorites st))
              in if n = 0 then 1 else n - 1)
       \<and> (distinct (map title (favorites st)) \<longrightarrow>
            distinct (map title (favorites (handleToggleFavorite uuid now st))))"
proof (intro conjI impI)
  assume "\<exists>f \<in> set (favorites st). title f = title (recipe_of r)"
  then show "\<exists>pre x post. favorites st = pre @ x # post \<and> title x = title (recipe_of r)
               \<and> (\<forall>y \<in> set pre. title y \<noteq> title (recipe_of r))
               \<and> favorites (handleToggleFavorite uuid now st) = pre @ post"
    by (rule toggle_present [OF assms])
next
  assume a: "\<forall>f \<in> set (favorites st). title f \<noteq> title (recipe_of r)"
  show "favorites (handleToggleFavorite uuid now st)
          = newFavorite uuid now (recipeImage st) r # favorites st"
    by (simp add: toggle_absent [OF assms a])
  show tw: "handleToggleFavorite uuid' now' (handleToggleFavorite uuid now st) = st"
    by (rule toggle_twice [OF assms a])
  show "\<forall>f \<in> set (favorites (handleToggleFavorite uuid' now'
                                 (handleToggleFavorite uuid now st))).
           title f \<noteq> title (recipe_of r)"
    unfolding tw by (rule a)
next
  show "length (filter (\<lambda>f. title f = title (recipe_of r))
                   (favorites (handleToggleFavorite uuid now st)))
           = (let n = length (filter (\<lambda>f. title f = title (recipe_of r)) (favorites st))
              in if n = 0 then 1 else n - 1)"
    by (rule toggle_count [OF assms])
next
  assume "distinct (map title (favorites st))"
  then show "distinct (map title (favorites (handleToggleFavorite uuid now st)))"
    by (rule toggle_distinct [OF assms])
qed

theorem toggle_favorite_by_title_witness:
  "recipe (example_state []) = Some (Generated example_recipe)
   \<and> favorites (handleToggleFavorite (str ''u1'') 1 (example_state []))
       = [newFavorite (str ''u1'') 1 None (Generated example_recipe)]
   \<and> handleToggleFavorite (str ''u2'') 2 (handleToggleFavorite (str ''u1'') 1 (example_state []))
       = example_state []
   \<and> recipe (example_state [example_saved]) = Some (Generated example_recipe)
   \<and> favorites (handleToggleFavorite (str ''u1'') 1 (example_state [example_saved])) = []"
proof -
  have r0: "recipe (example_state []) = Some (Generated example_recipe)"
    and r1: "recipe (example_state [example_saved]) = Some (Generated example_recipe)"
    by (simp_all add: example_state_def)
  have absent: "\<forall>f \<in> set (favorites (example_state [])).
                  title f \<noteq> title (recipe_of (Generated example_recipe))"
    by (simp add: example_state_def)
  have present: "\<exists>f \<in> set (favorites (example_state [example_saved])).
                  title f = title (recipe_of (Generated example_recipe))"
    by (simp add: example_state_def example_saved_def recipe.extend_def)
  note t0 = toggle_favorite_by_title [OF r0, of "str ''u1''" 1 "str ''u2''" 2]
  note t1 = toggle_favorite_by_title [OF r1, of "str ''u1''" 1 "str ''u2''" 2]
  from t0 absent have a: "favorites (handleToggleFavorite (str ''u1'') 1 (example_state []))
       = newFavorite (str ''u1'') 1 (recipeImage (example_state [])) (Generated example_recipe)
           # favorites (example_state [])"
    and b: "handleToggleFavorite (str ''u2'') 2
              (handleToggleFavorite (str ''u1'') 1 (example_state [])) = example_state []"
    by blast+
  from t1 present obtain pre x post where
    c: "favorites (example_state [example_saved]) = pre @ x # post"
       "favorites (handleToggleFavorite (str ''u1'') 1 (example_state [example_saved])) = pre @ post"
    by blast
  from c(1) have "pre = [] \<and> post = []"
    by (simp add: example_state_def append_eq_Cons_conv Cons_eq_append_conv)
  with c(2) have d: "favorites (handleToggleFavorite (str ''u1'') 1 (example_state [example_saved])) = []"
    by simp
  from a have a': "favorites (handleToggleFavorite (str ''u1'') 1 (example_state []))
       = [newFavorite (str ''u1'') 1 None (Generated example_recipe)]"
    by (simp add: example_state_def)
  from r0 r1 a' b d show ?thesis by simp
qed

text \<open>
  Claim C9. Rating keeps the length and the order of the favourites list. An entry whose id
  is the given one becomes the same record with only its \<open>rating\<close> field replaced; every
  other entry is the entry that was there. When no entry has the id, the list is unchanged.
\<close>

theorem rate_recipe_frame:
  "length (favorites (handleRateRecipe i r st)) = length (favorites st) \<and>
   (\<forall>k < length (favorites st).
       favorites (handleRateRecipe i r st) ! k =
         (if id (favorites st ! k) = i then (favorites st ! k)\<lparr>rating := Some r\<rparr>
          else favorites st ! k))
   \<and> ((\<forall>f \<in> set (favorites st). id f \<noteq> i) \<longrightarrow>
          favorites (handleRateRecipe i r st) = favorites st)"
  by (auto simp: handleRateRecipe_def Let_def map_idI split: option.splits current.splits)

theorem rate_recipe_frame_witness:
  "favorites (handleRateRecipe (str ''id-1'') (Fin 5)
       (example_state [example_saved, example_saved\<lparr>id := str ''id-2''\<rparr>]))
     = [example_saved\<lparr>rating := Some (Fin 5)\<rparr>, example_saved\<lparr>id := str ''id-2''\<rparr>]
   \<and> favorites (handleRateRecipe (str ''id-9'') (Fin 5) (example_state [example_saved]))
     = [example_saved]"
proof -
  let ?st = "example_state [example_saved, example_saved\<lparr>id := str ''id-2''\<rparr>]"
  have f: "favorites ?st = [example_saved, example_saved\<lparr>id := str ''id-2''\<rparr>]"
    by (simp add: example_state_def)
  have ids: "id example_saved = str ''id-1''" "str ''id-2'' \<noteq> str ''id-1''"
    by (simp_all add: example_saved_def recipe.extend_def str_def)
  note t = rate_recipe_frame [of "str ''id-1''" "Fin 5" ?st]
  from t have len: "length (favorites (handleRateRecipe (str ''id-1'') (Fin 5) ?st)) = 2"
    by (simp add: f)
  from t have e0: "favorites (handleRateRecipe (str ''id-1'') (Fin 5) ?st) ! 0
                     = example_saved\<lparr>rating := Some (Fin 5)\<rparr>"
    using f ids by simp
  from t have "1 < length (favorites ?st) \<longrightarrow> favorites (handleRateRecipe (str ''id-1'') (Fin 5) ?st) ! 1
                     = (if id (favorites ?st ! 1) = str ''id-1''
                        then (favorites ?st ! 1)\<lparr>rating := Some (Fin 5)\<rparr> else favorites ?st ! 1)"
    by blast
  then have e1: "favorites (handleRateRecipe (str ''id-1'') (Fin 5) ?st) ! 1
                     = example_saved\<lparr>id := str ''id-2''\<rparr>"
    using f ids by simp
  have A: "favorites (handleRateRecipe (str ''id-1'') (Fin 5) ?st)
             = [example_saved\<lparr>rating := Some (Fin 5)\<rparr>, example_saved\<lparr>id := str ''id-2''\<rparr>]"
    using len e0 e1 by (simp add: list_eq_iff_nth_eq less_Suc_eq numeral_2_eq_2)
  have "\<forall>f \<in> set (favorites (example_state [example_saved])). id f \<noteq> str ''id-9''"
    by (simp add: example_state_def example_saved_def recipe.extend_def str_def)
  with rate_recipe_frame [of "str ''id-9''" "Fin 5" "example_state [example_saved]"]
  have B: "favorites (handleRateRecipe (str ''id-9'') (Fin 5) (example_state [example_saved]))
             = [example_saved]"
    by (simp add: example_state_def)
  from A B show ?thesis by simp
qed

section \<open>Properties of the generation orchestrator\<close>

lemma generateRecipe_trace: "snd (generateRecipe svc prefs) = [GenerateContent prefs]"
  by (simp add: generateRecipe_def)

lemma generateDishImage_trace: "snd (generateDishImage svc t d) = [GenerateImages t d]"
  by (simp add: generateDishImage_def)



lemma handleGenerate_success:
  assumes "fst (generateRecipe svc (preferences st)) = Inr r"
  shows "handleGenerate svc st =
           (st\<lparr>loading := False, error := None, recipe := Some (Generated r), recipeImage := None,
               isImageLoading := True, view := Home\<rparr>,
            [GenerateContent (preferences st), GenerateImages (title r) (description r)],
            Some (fst (generateDishImage svc (title r) (description r))))"
  using assms generateRecipe_trace [of svc "preferences st"]
    generateDishImage_trace [of svc "title r" "description r"]
  by (cases "generateRecipe svc (preferences st)";
      cases "generateDishImage svc (title r) (description r)")
     (simp add: handleGenerate_def Let_def)



lemma generateDishImage_total: "\<exists>img. fst (generateDishImage svc t d) = Inr img"
  by (simp add: generateDishImage_def split: sum.splits option.splits)

text \<open>
  Claim C6. \<open>generateDishImage\<close> never ends in an error. A rejected call, an absent
  result and an empty result all give \<open>null\<close>. Once the recipe call has succeeded, the
  recipe is in the state when the handler returns and is still there, with no error message
  and both loading flags off, after the image call has settled, whatever the image call did.
\<close>

theorem image_best_effort:
  "(\<exists>img. fst (generateDishImage svc t d) = Inr img)
   \<and> ((isl (generateImages svc t d) \<or> generateImages svc t d = Inr None
        \<or> generateImages svc t d = Inr (Some []))
      \<longrightarrow> fst (generateDishImage svc t d) = Inr None)
   \<and> (\<forall>r. fst (generateRecipe svc (preferences st)) = Inr r \<longrightarrow>
         recipe (fst (handleGenerate svc st)) = Some (Generated r)
         \<and> \<not> loading (fst (handleGenerate svc st))
         \<and> recipe (fst (generation svc st)) = Some (Generated r)
         \<and> error (fst (generation svc st)) = None
         \<and> \<not> loading (fst (generation svc st))
         \<and> \<not> isImageLoading (fst (generation svc st))
         \<and> (fst (generateDishImage svc (title r) (description r)) = Inr None
              \<longrightarrow> recipeImage (fst (generation svc st)) = None))"
proof (intro conjI allI impI)
  show "\<exists>img. fst (generateDishImage svc t d) = Inr img"
    by (rule generateDishImage_total)
next
  assume "isl (generateImages svc t d) \<or> generateImages svc t d = Inr None
        \<or> generateImages svc t d = Inr (Some [])"
  then show "fst (generateDishImage svc t d) = Inr None"
    by (auto simp: generateDishImage_def split: sum.splits option.splits)
next
  fix r assume a: "fst (generateRecipe svc (preferences st)) = Inr r"
  note h = handleGenerate_success [OF a]
  obtain img where i: "fst (generateDishImage svc (title r) (description r)) = Inr img"
    using generateDishImage_total by blast
  show "recipe (fst (handleGenerate svc st)) = Some (Generated r)"
    "\<not> loading (fst (handleGenerate svc st))"
    by (simp_all add: h)
  show "recipe (fst (generation svc st)) = Some (Generated r)"
    "error (fst (generation svc st)) = None"
    "\<not> loading (fst (generation svc st))"
    "\<not> isImageLoading (fst (generation svc st))"
    by (simp_all add: generation_def h i imageSettled_def)
  assume "fst (generateDishImage svc (title r) (description r)) = Inr None"
  then show "recipeImage (fst (generation svc st)) = None"
    by (simp add: generation_def h imageSettled_def)
qed

theorem image_best_effort_witness:
  "fst (generateDishImage
          (example_service (Inr (Some (str ''{}''))) (Inl (Error GenericError (str ''network''))))
          (str ''Soup'') (str ''Warm'')) = Inr None
   \<and> recipe (fst (generation
          (example_service (Inr (Some (str ''{}''))) (Inl (Error GenericError (str ''network''))))
          (example_state []))) = Some (Generated example_recipe)
   \<and> error (fst (generation
          (example_service (Inr (Some (str ''{}''))) (Inl (Error GenericError (str ''network''))))
          (example_state []))) = None"
proof -
  let ?svc = "example_service (Inr (Some (str ''{}''))) (Inl (Error GenericError (str ''network'')))"
  have f: "isl (generateImages ?svc (str ''Soup'') (str ''Warm''))"
    by (simp add: example_service_def)
  have g: "fst (generateRecipe ?svc (preferences (example_state []))) = Inr example_recipe"
    by (simp add: generateRecipe_def example_service_def str_def)
  from image_best_effort [of ?svc "str ''Soup''" "str ''Warm''" "example_state []"] f
  have 1: "fst (generateDishImage ?svc (str ''Soup'') (str ''Warm'')) = Inr None"
    by blast
  from image_best_effort [of ?svc "str ''Soup''" "str ''Warm''" "example_state []"] g
  have 2: "recipe (fst (generation ?svc (example_state []))) = Some (Generated example_recipe)"
    and 3: "error (fst (generation ?svc (example_state []))) = None"
    by blast+
  from 1 2 3 show ?thesis by simp
qed

lemma pollLoop_run:
  assumes nd: "\<forall>i<k. \<not> isDone (ops i) \<and> getVideosOperation svc i (ops i) = Inr (ops (Suc i))"
      and d: "isDone (ops k)"
  shows "j \<le> k \<Longrightarrow> pollLoop svc j (ops j) tr
           = Some (Inr (ops k), tr @ concat (map (\<lambda>i. [Sleep 5000, GetVideosOperation i]) [j..<k]))"
proof (induction "k - j" arbitrary: j tr)
  case 0
  then have "j = k" by simp
  with d show ?case by (subst pollLoop.simps) simp
next
  case (Suc m)
  then have lt: "j < k" and m: "m = k - Suc j" and le: "Suc j \<le> k" by simp_all
  from nd lt have s: "\<not> isDone (ops j)" "getVideosOperation svc j (ops j) = Inr (ops (Suc j))"
    by simp_all
  have "pollLoop svc j (ops j) tr
          = pollLoop svc (Suc j) (ops (Suc j)) (tr @ [Sleep 5000, GetVideosOperation j])"
    by (subst pollLoop.simps) (simp add: s)
  also have "\<dots> = Some (Inr (ops k), (tr @ [Sleep 5000, GetVideosOperation j])
                        @ concat (map (\<lambda>i. [Sleep 5000, GetVideosOperation i]) [Suc j..<k]))"
    by (rule Suc.hyps(1) [OF m le])
  also have "(tr @ [Sleep 5000, GetVideosOperation j])
                        @ concat (map (\<lambda>i. [Sleep 5000, GetVideosOperation i]) [Suc j..<k])
           = tr @ concat (map (\<lambda>i. [Sleep 5000, GetVideosOperation i]) [j..<k])"
    using lt by (simp add: upt_conv_Cons)
  finally show ?case .
qed

lemma statusChecks_append: "statusChecks (xs @ ys) = statusChecks xs + statusChecks ys"
  by (induction xs rule: statusChecks.induct) simp_all

lemma statusChecks_rounds:
  "statusChecks (concat (map (\<lambda>i. [Sleep 5000, GetVideosOperation i]) [j..<k])) = k - j"
  by (induction k) (simp_all add: statusChecks_append Suc_diff_le)

text \<open>
  Claim C7. Let \<open>ops 0\<close> be the handle the video request returns and \<open>ops (i + 1)\<close> the
  handle the status check number \<open>i\<close> returns. If the handles before \<open>ops k\<close> are not done
  and \<open>ops k\<close> is done and carries a video URI, then \<open>generateRecipeVideo\<close> returns, its
  result is that URI with the key appended, and its trace is the request followed by exactly
  \<open>k\<close> rounds, each a wait of 5000 ms and then one status check. For an operation whose
  status checks answer "not done, not done, done" this is \<open>k = 3\<close>: three status checks.
\<close>

theorem video_polling:
  assumes gv: "generateVideos svc (title r) = Inr (ops 0)"
      and nd: "\<forall>i<k. \<not> isDone (ops i) \<and> getVideosOperation svc i (ops i) = Inr (ops (Suc i))"
      and d: "isDone (ops k)"
      and uri: "videoUri (ops k) = Some u" "u \<noteq> []"
  shows "\<exists>tr. generateRecipeVideo svc r = Some (Inr (Some (u @ str ''&key='' @ apiKey svc)), tr)
            \<and> tr = GenerateVideos (title r)
                     # concat (map (\<lambda>i. [Sleep 5000, GetVideosOperation i]) [0..<k])
            \<and> statusChecks tr = k"
proof -
  let ?tr = "GenerateVideos (title r) # concat (map (\<lambda>i. [Sleep 5000, GetVideosOperation i]) [0..<k])"
  have "pollLoop svc 0 (ops 0) [GenerateVideos (title r)] = Some (Inr (ops k), ?tr)"
    using pollLoop_run [OF nd d, of 0 "[GenerateVideos (title r)]"] by simp
  then have "generateRecipeVideo svc r = Some (Inr (Some (u @ str ''&key='' @ apiKey svc)), ?tr)"
    by (simp add: generateRecipeVideo_def gv uri)
  moreover have "statusChecks ?tr = k"
    using statusChecks_rounds [of 0 k] by simp
  ultimately show ?thesis by blast
qed

theorem video_polling_witness:
  "generateRecipeVideo (example_service (Inr None) (Inr None)) example_recipe
     = Some (Inr (Some (str ''https://v/1?alt=media&key=K'')),
             [GenerateVideos (str ''Soup''), Sleep 5000, GetVideosOperation 0,
              Sleep 5000, GetVideosOperation 1, Sleep 5000, GetVideosOperation 2])
   \<and> statusChecks [GenerateVideos (str ''Soup''), Sleep 5000, GetVideosOperation 0,
              Sleep 5000, GetVideosOperation 1, Sleep 5000, GetVideosOperation 2] = 3"
proof -
  let ?svc = "example_service (Inr None) (Inr None)"
  have gv: "generateVideos ?svc (title example_recipe) = Inr (example_ops 0)"
    by (simp add: example_service_def example_ops_def)
  have nd: "\<forall>i<3. \<not> isDone (example_ops i)
              \<and> getVideosOperation ?svc i (example_ops i) = Inr (example_ops (Suc i))"
    by (auto simp: example_service_def example_ops_def)
  have d: "isDone (example_ops 3)"
    and uri: "videoUri (example_ops 3) = Some (str ''https://v/1?alt=media'')"
             "str ''https://v/1?alt=media'' \<noteq> []"
    by (simp_all add: example_ops_def str_def)
  from video_polling [of ?svc example_recipe example_ops 3, OF gv nd d uri]
  show ?thesis
    by (simp add: example_service_def example_recipe_def str_def upt_rec numeral_3_eq_3)
qed


section \<open>Properties of the quantity scaler: formatting\<close>

lemma nat_toString_small: "n < 10 \<Longrightarrow> nat_toString n = [48 + n]"
  by (subst nat_toString.simps) simp

lemma nat_toString_large:
  "\<not> n < 10 \<Longrightarrow> nat_toString n = nat_toString (n div 10) @ [48 + n mod 10]"
  by (subst nat_toString.simps) simp

lemma nat_toString_digits: "c \<in> set (nat_toString n) \<Longrightarrow> is_digit c"
proof (induction n rule: nat_toString.induct)
  case (1 n)
  show ?case
  proof (cases "n < 10")
    case True
    with "1.prems" show ?thesis by (simp add: nat_toString_small is_digit_def)
  next
    case False
    with "1.prems" have "c \<in> set (nat_toString (n div 10)) \<or> c = 48 + n mod 10"
      by (auto simp: nat_toString_large)
    then show ?thesis
    proof
      assume "c \<in> set (nat_toString (n div 10))"
      with "1.IH" False show ?thesis by simp
    next
      assume "c = 48 + n mod 10"
      moreover have "n mod 10 < 10" by simp
      ultimately show ?thesis unfolding is_digit_def by linarith
    qed
  qed
qed

lemma nat_toString_nonempty: "nat_toString n \<noteq> []"
  by (cases "n < 10") (simp_all add: nat_toString_small nat_toString_large)

lemma nat_toString_length2: "10 \<le> n \<Longrightarrow> 2 \<le> length (nat_toString n)"
proof -
  assume a: "10 \<le> n"
  have "nat_toString (n div 10) \<noteq> []" by (rule nat_toString_nonempty)
  then have "1 \<le> length (nat_toString (n div 10))"
    by (cases "nat_toString (n div 10)") simp_all
  with a show ?thesis by (simp add: nat_toString_large)
qed

lemma toFixed1_spec: "toFixed 1 (Fin v) = Inr (spec_round1 v)"
proof -
  define n where "n = nat \<lfloor>\<bar>v\<bar> * 10 + 1 / 2\<rfloor>"
  have body: "(let m = nat_toString n; z = replicate (Suc 1 - length m) 48 @ m; k = length z
               in take (k - 1) z @ [46] @ drop (k - 1) z)
              = nat_toString (n div 10) @ [46] @ [48 + n mod 10]"
  proof (cases "n < 10")
    case True
    then have "nat_toString n = [48 + n]" "nat_toString (n div 10) = [48]"
      by (simp_all add: nat_toString_small)
    with True show ?thesis by (simp add: Let_def)
  next
    case False
    then have m: "nat_toString n = nat_toString (n div 10) @ [48 + n mod 10]"
      by (rule nat_toString_large)
    from False have "2 \<le> length (nat_toString n)" by (intro nat_toString_length2) simp
    then have "replicate (Suc 1 - length (nat_toString n)) 48 = ([]::nat list)" by simp
    then show ?thesis by (simp add: Let_def m)
  qed
  show ?thesis
    using body by (simp add: toFixed_def spec_round1_def Let_def n_def)
qed

lemma replace_point_zero:
  "\<forall>c \<in> set pre. c \<noteq> 46 \<Longrightarrow>
   replace_first [46, 48] [] (pre @ [46, d]) = pre @ (if d = 48 then [] else [46, d])"
  by (induction pre) auto

lemma strip_point_zero:
  "spec_strip_point_zero (pre @ [46, d]) = pre @ (if d = 48 then [] else [46, d])"
  by (simp add: spec_strip_point_zero_def str_def)

lemma round1_shape:
  "\<exists>pre d. spec_round1 v = pre @ [46, d] \<and> (\<forall>c \<in> set pre. c \<noteq> 46)"
proof -
  define n where "n = nat \<lfloor>\<bar>v\<bar> * 10 + 1 / 2\<rfloor>"
  let ?pre = "(if v < 0 then [45] else []) @ nat_toString (n div 10)"
  have "spec_round1 v = ?pre @ [46, 48 + n mod 10]"
    by (simp add: spec_round1_def Let_def n_def)
  moreover have "\<forall>c \<in> set ?pre. c \<noteq> 46"
  proof
    fix c assume "c \<in> set ?pre"
    then have "c = 45 \<or> is_digit c"
      using nat_toString_digits [of c "n div 10"] by (auto split: if_splits)
    then show "c \<noteq> 46" by (auto simp: is_digit_def)
  qed
  ultimately show ?thesis by blast
qed

lemma replace_is_strip:
  "replace_first (str ''.0'') [] (spec_round1 v) = spec_strip_point_zero (spec_round1 v)"
proof -
  from round1_shape [of v] obtain pre d where
    s: "spec_round1 v = pre @ [46, d]" and p: "\<forall>c \<in> set pre. c \<noteq> 46" by blast
  have "str ''.0'' = [46, 48]" by (simp add: str_def)
  then show ?thesis
    by (simp only: s replace_point_zero [OF p] strip_point_zero)
qed

lemma frac_bounds: "0 \<le> v - of_int \<lfloor>v\<rfloor>" "v - of_int \<lfloor>v\<rfloor> < (1::rat)"
  by linarith+

lemma formatNumber_spec: "formatNumber (Fin v) = Inr (spec_format v)"
proof -
  define f where "f = v - of_int \<lfloor>v\<rfloor>"
  have wp: "wholePrefix (Fin v) = (if 0 < \<lfloor>v\<rfloor> then int_toString \<lfloor>v\<rfloor> @ [32] else [])"
    by (simp add: wholePrefix_def)
  have tf: "(case toFixed (Suc 0) (Fin v) of Inl e \<Rightarrow> Inl e
             | Inr s \<Rightarrow> Inr (replace_first (str ''.0'') [] s))
            = Inr (spec_strip_point_zero (spec_round1 v))"
    using toFixed1_spec [of v] by (simp add: replace_is_strip)
  show ?thesis
    unfolding formatNumber_def spec_format_def Let_def
    by (simp add: wp tf spec_glyphs_def del: of_int_floor_cancel)
qed


section \<open>Properties of the quantity scaler: parsing and scaling\<close>

text \<open>Facts for evaluating the definitions on concrete strings and numbers.\<close>

lemma floor_numeral_quotient:
  "\<lfloor>numeral a / numeral b :: rat\<rfloor> = numeral a div numeral b"
  using floor_divide_of_int_eq [of "numeral a" "numeral b", where ?'a = rat]
  by simp

lemmas scaler_eval = getScaledQuantity_def scaleBody_def formatNumber_def wholePrefix_def
  part_def parseFloat_def scale10_def parse_exponent_def strip_sign_def digits_val_def
  toFixed_def int_toString_def nat_toString.simps includes_unit_def trim_def is_digit_def
  is_ws_def str_def inf_of_def Let_def floor_numeral_quotient

lemma parseFloat_NaN_iff: "js_isNaN (parseFloat s) \<longleftrightarrow> \<not> has_number s"
proof -
  obtain neg u where su: "strip_sign (dropWhile is_ws s) = (neg, u)"
    by (cases "strip_sign (dropWhile is_ws s)")
  show ?thesis
  proof (cases "take 8 u = str ''Infinity''")
    case True
    then show ?thesis by (simp add: parseFloat_def has_number_def su)
  next
    case False
    show ?thesis
    proof (cases u)
      case Nil
      with False show ?thesis by (simp add: parseFloat_def has_number_def su)
    next
      case (Cons c r)
      show ?thesis
      proof (cases "is_digit c")
        case True
        with False Cons show ?thesis
          by (simp add: parseFloat_def has_number_def su Let_def)
      next
        case nd: False
        show ?thesis
        proof (cases r)
          case Nil
          with nd False Cons show ?thesis
            by (simp add: parseFloat_def has_number_def su Let_def)
        next
          case (Cons d r')
          with nd False \<open>u = c # r\<close> show ?thesis
            by (simp add: parseFloat_def has_number_def su Let_def)
        qed
      qed
    qed
  qed
qed

lemma split_on_absent: "c \<notin> set s \<Longrightarrow> split_on c s = [s]"
  by (induction s) auto

lemma split_on_nonempty: "split_on c s \<noteq> []"
  by (induction s) (auto split: list.splits)

lemma split_on_two: "split_on c s = [a, b] \<Longrightarrow> includes_unit s c"
  using split_on_absent [of c s] by (auto simp: includes_unit_def)

lemma split_on_present: "c \<in> set s \<Longrightarrow> \<exists>a b rest. split_on c s = a # b # rest"
proof (induction s)
  case Nil
  then show ?case by simp
next
  case (Cons x xs)
  show ?case
  proof (cases "x = c")
    case True
    obtain p ps where "split_on c xs = p # ps"
      using split_on_nonempty [of c xs] by (cases "split_on c xs") auto
    with True show ?thesis by simp
  next
    case False
    with Cons.prems have "c \<in> set xs" by simp
    from Cons.IH [OF this] obtain a b rest where "split_on c xs = a # b # rest" by blast
    with False show ?thesis by simp
  qed
qed

lemma formatNumber_total: "\<exists>s. formatNumber n = Inr s"
proof (cases n)
  case (Fin v)
  then show ?thesis by (simp add: formatNumber_spec)
qed (simp_all add: formatNumber_def toFixed_def)

lemma scaleBody_unscalable: "\<not> scalable qty \<Longrightarrow> scaleBody qty ratio = Inr None"
proof -
  assume ns: "\<not> scalable qty"
  show ?thesis
  proof (cases "includes_unit qty 45")
    case True
    with ns have "\<not> list_all (\<lambda>p. \<not> js_isNaN (parseFloat (trim p))) (split_on 45 qty)"
      by (simp add: scalable_def parseFloat_NaN_iff)
    then have "\<not> list_all (\<lambda>p. \<not> js_isNaN p) (map (\<lambda>p. parseFloat (trim p)) (split_on 45 qty))"
      by (simp add: list_all_iff)
    with True show ?thesis
      by (simp only: scaleBody_def Let_def if_True if_False)
  next
    case no45: False
    show ?thesis
    proof (cases "includes_unit qty 47")
      case True
      then obtain a b rest where sp: "split_on 47 qty = a # b # rest"
        using split_on_present [of 47 qty] by (auto simp: includes_unit_def)
      with ns no45 True have
        "js_isNaN (parseFloat (trim a)) \<or> js_isNaN (parseFloat (trim b))
          \<or> parseFloat (trim b) = Fin 0"
        by (auto simp: scalable_def parseFloat_NaN_iff)
      then have "js_isNaN (parseFloat (trim a)) \<or> js_isNaN (parseFloat (trim b))
          \<or> js_strict_eq (parseFloat (trim b)) (Fin 0)"
        by auto
      with no45 True sp show ?thesis
        by (auto simp: scaleBody_def Let_def part_def)
    next
      case False
      with ns no45 show ?thesis
        by (simp add: scaleBody_def scalable_def parseFloat_NaN_iff Let_def)
    qed
  qed
qed

lemma getScaledQuantity_total: "\<exists>s. getScaledQuantity qty b t = Inr s"
  by (simp add: getScaledQuantity_def Let_def split: sum.splits option.splits)

lemma getScaledQuantity_unchanged:
  "qty = [] \<or> js_strict_eq b t \<or> \<not> scalable qty \<Longrightarrow> getScaledQuantity qty b t = Inr qty"
  by (auto simp: getScaledQuantity_def Let_def scaleBody_unscalable)











text \<open>
  Claim C1, as amended. The quantity comes back unchanged when it is empty, when the two
  serving counts are equal, or when it fails the code's own test for a number: with a
  \<open>-\<close>, some piece between the \<open>-\<close> signs does not begin with a number; else with a
  \<open>/\<close>, one of the first two pieces does not begin with a number or the second is zero;
  else the string does not begin with a number. The function never ends in an exception.
  "pinch" and "1/0" come back unchanged. The claim as stated, with the shapes
  integer, decimal, a/b and a-b, fails on a string that begins with a number and goes on with
  other text: \<open>parseFloat\<close> reads the number and ignores the rest, so "2 cups" from 2 to 4
  servings becomes "4".
\<close>

theorem scale_unchanged:
  "(qty = [] \<or> js_strict_eq b t \<or> \<not> scalable qty \<longrightarrow> getScaledQuantity qty b t = Inr qty)
   \<and> (\<exists>s. getScaledQuantity qty b t = Inr s)
   \<and> getScaledQuantity (str ''pinch'') (Fin 2) (Fin 4) = Inr (str ''pinch'')
   \<and> getScaledQuantity (str ''1/0'') (Fin 2) (Fin 4) = Inr (str ''1/0'')"
proof (intro conjI impI)
  assume "qty = [] \<or> js_strict_eq b t \<or> \<not> scalable qty"
  then show "getScaledQuantity qty b t = Inr qty" by (rule getScaledQuantity_unchanged)
next
  show "\<exists>s. getScaledQuantity qty b t = Inr s" by (rule getScaledQuantity_total)
next
  show "getScaledQuantity (str ''pinch'') (Fin 2) (Fin 4) = Inr (str ''pinch'')"
    by (simp add: scaler_eval)
  show "getScaledQuantity (str ''1/0'') (Fin 2) (Fin 4) = Inr (str ''1/0'')"
    by (simp add: scaler_eval)
qed

theorem scale_unchanged_witness:
  "\<not> scalable (str ''1/x'')
   \<and> getScaledQuantity (str ''1/x'') (Fin 2) (Fin 4) = Inr (str ''1/x'')
   \<and> getScaledQuantity (str ''2'') (Fin 3) (Fin 3) = Inr (str ''2'')
   \<and> getScaledQuantity [] (Fin 2) (Fin 4) = Inr []"
proof -
  have n: "\<not> scalable (str ''1/x'')"
    by (simp add: scalable_def has_number_def scaler_eval)
  have e: "js_strict_eq (Fin 3) (Fin 3)" by simp
  from scale_unchanged [of "str ''1/x''" "Fin 2" "Fin 4"] n
  have 1: "getScaledQuantity (str ''1/x'') (Fin 2) (Fin 4) = Inr (str ''1/x'')" by blast
  from scale_unchanged [of "str ''2''" "Fin 3" "Fin 3"] e
  have 2: "getScaledQuantity (str ''2'') (Fin 3) (Fin 3) = Inr (str ''2'')" by blast
  from scale_unchanged [of "[]" "Fin 2" "Fin 4"]
  have 3: "getScaledQuantity [] (Fin 2) (Fin 4) = Inr []" by blast
  from n 1 2 3 show ?thesis by simp
qed

theorem scale_text_counterexample:
  "\<not> spec_scalable (str ''2 cups'')
   \<and> getScaledQuantity (str ''2 cups'') (Fin 2) (Fin 4) = Inr (str ''4'')
   \<and> str ''4'' \<noteq> str ''2 cups''"
  by (simp add: spec_scalable_def spec_number_def spec_zero_def scaler_eval)

lemma scale_range:
  assumes "qty \<noteq> []" "\<not> js_strict_eq b t" "split_on 45 qty = [a, c]"
    "\<not> js_isNaN (parseFloat (trim a))" "\<not> js_isNaN (parseFloat (trim c))"
  shows "\<exists>lo hi. formatNumber (js_mul (parseFloat (trim a)) (js_div t b)) = Inr lo
           \<and> formatNumber (js_mul (parseFloat (trim c)) (js_div t b)) = Inr hi
           \<and> getScaledQuantity qty b t = Inr (lo @ [45] @ hi)"
proof -
  obtain lo where lo: "formatNumber (js_mul (parseFloat (trim a)) (js_div t b)) = Inr lo"
    using formatNumber_total by blast
  obtain hi where hi: "formatNumber (js_mul (parseFloat (trim c)) (js_div t b)) = Inr hi"
    using formatNumber_total by blast
  have inc: "includes_unit qty 45" using assms(3) by (rule split_on_two)
  have "scaleBody qty (js_div t b) = Inr (Some (lo @ [45] @ hi))"
    using inc assms(4,5) by (simp add: scaleBody_def assms(3) part_def lo hi)
  then have "getScaledQuantity qty b t = Inr (lo @ [45] @ hi)"
    using assms(1,2) by (simp add: getScaledQuantity_def)
  with lo hi show ?thesis by blast
qed

lemma scale_fraction:
  assumes "qty \<noteq> []" "\<not> js_strict_eq b t" "\<not> includes_unit qty 45" "split_on 47 qty = [a, c]"
    "\<not> js_isNaN (parseFloat (trim a))" "\<not> js_isNaN (parseFloat (trim c))"
    "\<not> js_strict_eq (parseFloat (trim c)) (Fin 0)"
  shows "getScaledQuantity qty b t
           = formatNumber (js_mul (js_div (parseFloat (trim a)) (parseFloat (trim c))) (js_div t b))"
proof -
  obtain s where s: "formatNumber (js_mul (js_div (parseFloat (trim a)) (parseFloat (trim c)))
                        (js_div t b)) = Inr s"
    using formatNumber_total by blast
  have inc: "includes_unit qty 47" using assms(4) by (rule split_on_two)
  have "scaleBody qty (js_div t b) = Inr (Some s)"
    using inc assms(3,5,6,7) by (simp add: scaleBody_def assms(4) part_def s)
  then show ?thesis
    using assms(1,2) by (simp add: getScaledQuantity_def s)
qed

lemma scale_single:
  assumes "qty \<noteq> []" "\<not> js_strict_eq b t" "\<not> includes_unit qty 45" "\<not> includes_unit qty 47"
    "\<not> js_isNaN (parseFloat qty)"
  shows "getScaledQuantity qty b t = formatNumber (js_mul (parseFloat qty) (js_div t b))"
proof -
  obtain s where s: "formatNumber (js_mul (parseFloat qty) (js_div t b)) = Inr s"
    using formatNumber_total by blast
  have "scaleBody qty (js_div t b) = Inr (Some s)"
    using assms(3,4,5) by (simp add: scaleBody_def s)
  then show ?thesis
    using assms(1,2) by (simp add: getScaledQuantity_def s)
qed

text \<open>
  Claim C2. Take a quantity that is not empty and serving counts that differ, and let the
  ratio be target over base. A string of two pieces around one \<open>-\<close>, both of them numbers,
  becomes the two scaled and formatted numbers joined by \<open>-\<close>. Otherwise a string without
  \<open>-\<close>, of two pieces around one \<open>/\<close>, both numbers and the second not zero, becomes the
  format of numerator over denominator times the ratio. Otherwise a string with neither sign
  that is a number becomes the format of that number times the ratio. So "1/2" from 4 to 8
  servings is "1", from 4 to 6 it is the three-quarters glyph, and "1-2" from 2 to 4 is "2-4".
\<close>

theorem scale_priority_order:
  assumes "qty \<noteq> []" "\<not> js_strict_eq b t"
  shows "(\<forall>a c. split_on 45 qty = [a, c]
             \<and> \<not> js_isNaN (parseFloat (trim a)) \<and> \<not> js_isNaN (parseFloat (trim c)) \<longrightarrow>
           (\<exists>lo hi. formatNumber (js_mul (parseFloat (trim a)) (js_div t b)) = Inr lo
              \<and> formatNumber (js_mul (parseFloat (trim c)) (js_div t b)) = Inr hi
              \<and> getScaledQuantity qty b t = Inr (lo @ [45] @ hi)))
       \<and> (\<forall>a c. \<not> includes_unit qty 45 \<and> split_on 47 qty = [a, c]
             \<and> \<not> js_isNaN (parseFloat (trim a)) \<and> \<not> js_isNaN (parseFloat (trim c))
             \<and> \<not> js_strict_eq (parseFloat (trim c)) (Fin 0) \<longrightarrow>
           getScaledQuantity qty b t
             = formatNumber (js_mul (js_div (parseFloat (trim a)) (parseFloat (trim c)))
                               (js_div t b)))
       \<and> (\<not> includes_unit qty 45 \<and> \<not> includes_unit qty 47 \<and> \<not> js_isNaN (parseFloat qty) \<longrightarrow>
           getScaledQuantity qty b t = formatNumber (js_mul (parseFloat qty) (js_div t b)))
       \<and> getScaledQuantity (str ''1/2'') (Fin 4) (Fin 8) = Inr (str ''1'')
       \<and> getScaledQuantity (str ''1/2'') (Fin 4) (Fin 6) = Inr [190]
       \<and> getScaledQuantity (str ''1-2'') (Fin 2) (Fin 4) = Inr (str ''2-4'')"
proof (intro conjI allI impI)
  fix a c
  assume "split_on 45 qty = [a, c]
             \<and> \<not> js_isNaN (parseFloat (trim a)) \<and> \<not> js_isNaN (parseFloat (trim c))"
  then show "\<exists>lo hi. formatNumber (js_mul (parseFloat (trim a)) (js_div t b)) = Inr lo
              \<and> formatNumber (js_mul (parseFloat (trim c)) (js_div t b)) = Inr hi
              \<and> getScaledQuantity qty b t = Inr (lo @ [45] @ hi)"
    using scale_range [OF assms] by blast
next
  fix a c
  assume "\<not> includes_unit qty 45 \<and> split_on 47 qty = [a, c]
             \<and> \<not> js_isNaN (parseFloat (trim a)) \<and> \<not> js_isNaN (parseFloat (trim c))
             \<and> \<not> js_strict_eq (parseFloat (trim c)) (Fin 0)"
  then show "getScaledQuantity qty b t
             = formatNumber (js_mul (js_div (parseFloat (trim a)) (parseFloat (trim c)))
                               (js_div t b))"
    using scale_fraction [OF assms] by blast
next
  assume "\<not> includes_unit qty 45 \<and> \<not> includes_unit qty 47 \<and> \<not> js_isNaN (parseFloat qty)"
  then show "getScaledQuantity qty b t = formatNumber (js_mul (parseFloat qty) (js_div t b))"
    using scale_single [OF assms] by blast
next
  show "getScaledQuantity (str ''1/2'') (Fin 4) (Fin 8) = Inr (str ''1'')"
    by (simp add: scaler_eval)
  show "getScaledQuantity (str ''1/2'') (Fin 4) (Fin 6) = Inr [190]"
    by (simp add: scaler_eval)
  show "getScaledQuantity (str ''1-2'') (Fin 2) (Fin 4) = Inr (str ''2-4'')"
    by (simp add: scaler_eval)
qed

theorem scale_priority_order_witness:
  "getScaledQuantity (str ''1-3'') (Fin 2) (Fin 3) = Inr ([49, 32, 189] @ [45] @ [52, 32, 189])
   \<and> getScaledQuantity (str ''3/4'') (Fin 2) (Fin 4) = Inr [49, 32, 189]
   \<and> getScaledQuantity (str ''1.5'') (Fin 2) (Fin 3) = Inr [50, 32, 188]"
proof -
  have ne: "str ''1-3'' \<noteq> []" "str ''3/4'' \<noteq> []" "str ''1.5'' \<noteq> []"
    by (simp_all add: str_def)
  have d: "\<not> js_strict_eq (Fin 2) (Fin 3)" "\<not> js_strict_eq (Fin 2) (Fin 4)"
    by simp_all
  have r: "split_on 45 (str ''1-3'') = [str ''1'', str ''3'']"
    by (simp add: str_def)
  have p: "parseFloat (trim (str ''1'')) = Fin 1" "parseFloat (trim (str ''3'')) = Fin 3"
    "parseFloat (trim (str ''4'')) = Fin 4" "parseFloat (str ''1.5'') = Fin (3 / 2)"
    by (simp_all add: scaler_eval)
  have f: "\<not> includes_unit (str ''3/4'') 45" "split_on 47 (str ''3/4'') = [str ''3'', str ''4'']"
    by (simp_all add: str_def includes_unit_def)
  have n: "\<not> includes_unit (str ''1.5'') 45" "\<not> includes_unit (str ''1.5'') 47"
    by (simp_all add: str_def includes_unit_def)
  have fm: "formatNumber (Fin (3 / 2)) = Inr [49, 32, 189]"
    "formatNumber (Fin (9 / 2)) = Inr [52, 32, 189]"
    "formatNumber (Fin (9 / 4)) = Inr [50, 32, 188]"
    by (simp_all add: scaler_eval)
  have ar: "js_mul (Fin 1) (js_div (Fin 3) (Fin 2)) = Fin (3 / 2)"
    "js_mul (Fin 3) (js_div (Fin 3) (Fin 2)) = Fin (9 / 2)"
    "js_mul (js_div (Fin 3) (Fin 4)) (js_div (Fin 4) (Fin 2)) = Fin (3 / 2)"
    "js_mul (Fin (3 / 2)) (js_div (Fin 3) (Fin 2)) = Fin (9 / 4)"
    by simp_all
  note T1 = scale_priority_order [OF ne(1) d(1)]
  note T2 = scale_priority_order [OF ne(2) d(2)]
  note T3 = scale_priority_order [OF ne(3) d(1)]
  from T1 have "split_on 45 (str ''1-3'') = [str ''1'', str ''3'']
        \<and> \<not> js_isNaN (parseFloat (trim (str ''1''))) \<and> \<not> js_isNaN (parseFloat (trim (str ''3''))) \<longrightarrow>
      (\<exists>lo hi. formatNumber (js_mul (parseFloat (trim (str ''1''))) (js_div (Fin 3) (Fin 2))) = Inr lo
         \<and> formatNumber (js_mul (parseFloat (trim (str ''3''))) (js_div (Fin 3) (Fin 2))) = Inr hi
         \<and> getScaledQuantity (str ''1-3'') (Fin 2) (Fin 3) = Inr (lo @ [45] @ hi))"
    by blast
  then have "\<exists>lo hi. formatNumber (Fin (3 / 2)) = Inr lo \<and> formatNumber (Fin (9 / 2)) = Inr hi
         \<and> getScaledQuantity (str ''1-3'') (Fin 2) (Fin 3) = Inr (lo @ [45] @ hi)"
    unfolding p ar using r by simp
  then have 1: "getScaledQuantity (str ''1-3'') (Fin 2) (Fin 3)
                  = Inr ([49, 32, 189] @ [45] @ [52, 32, 189])"
    unfolding fm by blast
  from T2 have "\<not> includes_unit (str ''3/4'') 45 \<and> split_on 47 (str ''3/4'') = [str ''3'', str ''4'']
             \<and> \<not> js_isNaN (parseFloat (trim (str ''3''))) \<and> \<not> js_isNaN (parseFloat (trim (str ''4'')))
             \<and> \<not> js_strict_eq (parseFloat (trim (str ''4''))) (Fin 0) \<longrightarrow>
           getScaledQuantity (str ''3/4'') (Fin 2) (Fin 4)
             = formatNumber (js_mul (js_div (parseFloat (trim (str ''3''))) (parseFloat (trim (str ''4''))))
                               (js_div (Fin 4) (Fin 2)))"
    by blast
  then have 2: "getScaledQuantity (str ''3/4'') (Fin 2) (Fin 4) = Inr [49, 32, 189]"
    unfolding p ar fm using f by simp
  from T3 have "\<not> includes_unit (str ''1.5'') 45 \<and> \<not> includes_unit (str ''1.5'') 47
       \<and> \<not> js_isNaN (parseFloat (str ''1.5'')) \<longrightarrow>
           getScaledQuantity (str ''1.5'') (Fin 2) (Fin 3)
             = formatNumber (js_mul (parseFloat (str ''1.5'')) (js_div (Fin 3) (Fin 2)))"
    by blast
  then have 3: "getScaledQuantity (str ''1.5'') (Fin 2) (Fin 3) = Inr [50, 32, 188]"
    unfolding p ar fm using n by simp
  from 1 2 3 show ?thesis by simp
qed

section \<open>Properties of the ingredient display\<close>

lemma ingredientTexts_plain:
  "ingredients r = map Plain ss \<Longrightarrow> ingredientTexts r c = map Inr ss"
  by (simp add: ingredientTexts_def)

lemma isStructured_iff:
  "isStructuredIngredients ings \<longleftrightarrow> (\<exists>i rest. ings = Structured i # rest)"
  by (auto simp: isStructuredIngredients_def split: list.splits ingredient.splits)

lemma truthy_iff: "truthy v \<longleftrightarrow> (\<exists>n. v = Some n \<and> n \<noteq> Fin 0 \<and> n \<noteq> NaN)"
  by (cases v rule: truthy.cases) auto

text \<open>
  Claim C10. When every ingredient of a recipe is a plain string, the list shows each string
  as it is, the same for every serving count, and the serving control is not offered. A plain
  string is never scaled. The test for structured ingredients looks at the first element of
  a list that is not empty, and the serving control is offered exactly when that test holds
  and the recipe has a serving count that is a number other than zero.
\<close>

theorem scaling_only_structured:
  "(ingredients r = map Plain ss \<longrightarrow>
      ingredientTexts r c = map Inr ss \<and> ingredientTexts r c = ingredientTexts r c'
      \<and> \<not> canScale r)
   \<and> formatIngredientText (Plain s) base c = Inr s
   \<and> (isStructuredIngredients ings \<longleftrightarrow> (\<exists>i rest. ings = Structured i # rest))
   \<and> (canScale r \<longleftrightarrow>
        (\<exists>i rest. ingredients r = Structured i # rest)
        \<and> (\<exists>n. servings r = Some n \<and> n \<noteq> Fin 0 \<and> n \<noteq> NaN))"
proof (intro conjI impI)
  assume a: "ingredients r = map Plain ss"
  show "ingredientTexts r c = map Inr ss"
    by (rule ingredientTexts_plain [OF a])
  show "ingredientTexts r c = ingredientTexts r c'"
    by (simp add: ingredientTexts_plain [OF a])
  show "\<not> canScale r"
    using a by (cases ss) (simp_all add: canScale_def isStructuredIngredients_def)
next
  show "formatIngredientText (Plain s) base c = Inr s"
    by (simp add: formatIngredientText_def)
  show "isStructuredIngredients ings \<longleftrightarrow> (\<exists>i rest. ings = Structured i # rest)"
    by (rule isStructured_iff)
  show "canScale r \<longleftrightarrow>
        (\<exists>i rest. ingredients r = Structured i # rest)
        \<and> (\<exists>n. servings r = Some n \<and> n \<noteq> Fin 0 \<and> n \<noteq> NaN)"
    by (simp add: canScale_def isStructured_iff truthy_iff)
qed

theorem scaling_only_structured_witness:
  "ingredientTexts (example_recipe\<lparr>ingredients := [Plain (str ''2 cups flour''), Plain (str ''salt'')]\<rparr>) (Fin 8)
     = [Inr (str ''2 cups flour''), Inr (str ''salt'')]
   \<and> \<not> canScale (example_recipe\<lparr>ingredients := [Plain (str ''2 cups flour''), Plain (str ''salt'')]\<rparr>)
   \<and> canScale example_recipe
   \<and> ingredientTexts example_recipe (Fin 4) = [Inr (str ''1 tsp salt'')]"
proof -
  let ?r = "example_recipe\<lparr>ingredients := [Plain (str ''2 cups flour''), Plain (str ''salt'')]\<rparr>"
  have a: "ingredients ?r = map Plain [str ''2 cups flour'', str ''salt'']" by simp
  from scaling_only_structured [of ?r "[str ''2 cups flour'', str ''salt'']" "Fin 8"] a
  have 1: "ingredientTexts ?r (Fin 8) = map Inr [str ''2 cups flour'', str ''salt'']"
    and 2: "\<not> canScale ?r"
    by blast+
  have "(\<exists>i rest. ingredients example_recipe = Structured i # rest)
        \<and> (\<exists>n. servings example_recipe = Some n \<and> n \<noteq> Fin 0 \<and> n \<noteq> NaN)"
    by (simp add: example_recipe_def)
  with scaling_only_structured [of example_recipe]
  have 3: "canScale example_recipe" by blast
  have g: "getScaledQuantity (str ''1/2'') (Fin 2) (Fin 4) = Inr (str ''1'')"
    by (simp add: scaler_eval)
  have 4: "ingredientTexts example_recipe (Fin 4) = [Inr (str ''1 tsp salt'')]"
    by (simp add: ingredientTexts_def example_recipe_def formatIngredientText_def
          baseServings_def g)
       (simp add: str_def)
  from 1 2 3 4 show ?thesis by simp
qed
end
